theory Spec2Isabelle
  imports Complex_Main
begin

section \<open>Galaxy: Fractured Dawn -- the combat resolution engine\<close>

text \<open>
  A shallow embedding of \<^verbatim>\<open>core/combat.py\<close>, of the parts of
  \<^verbatim>\<open>core/player.py\<close>, \<^verbatim>\<open>core/modules.py\<close> and \<^verbatim>\<open>core/utils.py\<close>
  it calls, and the properties of the combat rules that hold of it.

  Conventions of the embedding.
  \<^item> Python's unbounded integers are \<open>int\<close>; \<open>//\<close> is \<open>div\<close> (both round down).
  \<^item> The float multipliers (\<open>1.8\<close>, the weakness multipliers) are rationals and the
    product is exact; \<open>int(...)\<close> truncates toward zero (\<open>py_int\<close>).
  \<^item> The shared random generator is a tape \<open>nat \<Rightarrow> int\<close> of raw draws read at a
    position that every draw advances; \<open>random.randint(a, b)\<close> maps a raw draw into
    \<open>[a, b]\<close> and raises \<open>ValueError\<close> on an empty range.
  \<^item> Dictionaries mutated in place (\<open>player\<close>, \<open>enemy\<close>) are records passed in
    and returned updated.
  \<^item> Exceptions are values: a function that can raise returns \<open>error + 'a\<close>.
  \<^item> The formatted log strings are constructors of \<open>log_entry\<close> carrying the values
    the f-string prints.
\<close>

subsection \<open>Errors and the random source (core/utils.py)\<close>

datatype error = ValueError | KeyError | EOFError

fun and_then :: "error + 'a \<Rightarrow> ('a \<Rightarrow> error + 'b) \<Rightarrow> error + 'b" where
  "and_then (Inl e) f = Inl e"
| "and_then (Inr x) f = f x"

type_synonym tape = "nat \<Rightarrow> int"

text \<open>A tape that starts with the given draws and continues with zeros.\<close>

definition tape_of :: "int list \<Rightarrow> tape" where
  "tape_of xs n = (if n < length xs then xs ! n else 0)"

text \<open>\<^verbatim>\<open>random.randint(a, b)\<close>: a value of \<open>[a, b]\<close>, \<open>ValueError\<close> when \<open>b < a\<close>.\<close>

definition randint :: "int \<Rightarrow> int \<Rightarrow> int \<Rightarrow> error + int" where
  "randint a b raw = (if b < a then Inl ValueError else Inr (a + raw mod (b - a + 1)))"

text \<open>\<^verbatim>\<open>def roll_dice(sides=20): return random.randint(1, sides)\<close>\<close>

definition roll_dice :: "int \<Rightarrow> int \<Rightarrow> error + int" where
  "roll_dice sides raw = randint 1 sides raw"

text \<open>\<^verbatim>\<open>def chance(percent): return random.randint(1, 100) <= max(0, min(percent, 100))\<close>\<close>

definition chance :: "int \<Rightarrow> int \<Rightarrow> error + bool" where
  "chance percent raw = and_then (randint 1 100 raw) (\<lambda>r. Inr (r \<le> max 0 (min percent 100)))"

text \<open>\<^verbatim>\<open>int(x)\<close> on a float: truncation toward zero.\<close>

definition py_int :: "rat \<Rightarrow> int" where
  "py_int x = (if 0 \<le> x then \<lfloor>x\<rfloor> else \<lceil>x\<rceil>)"

subsection \<open>The module registry (core/modules.py)\<close>

text \<open>
  An entry of \<^verbatim>\<open>MODULES\<close> is a dictionary read with \<^verbatim>\<open>.get(key, default)\<close>, so every
  key is optional; \<^verbatim>\<open>{}\<close> is \<open>no_module\<close>. The keys \<^verbatim>\<open>desc\<close> and \<^verbatim>\<open>efficiency\<close>
  are not read by the engine and are left out.
\<close>

record module_def =
  m_type :: "string option"
  m_damage_type :: "string option"
  m_damage :: "(int \<times> int) option"
  m_ammo_use :: "int option"
  m_power_use :: "int option"
  m_effect :: "(string \<times> int) list option"

definition no_module :: module_def where
  "no_module = \<lparr>m_type = None, m_damage_type = None, m_damage = None,
     m_ammo_use = None, m_power_use = None, m_effect = None\<rparr>"

definition weapon :: "string \<Rightarrow> int \<times> int \<Rightarrow> int \<Rightarrow> int \<Rightarrow> module_def" where
  "weapon dt dmg au pu = \<lparr>m_type = Some ''weapon'', m_damage_type = Some dt, m_damage = Some dmg,
     m_ammo_use = Some au, m_power_use = Some pu, m_effect = None\<rparr>"

definition mining :: "int \<Rightarrow> module_def" where
  "mining pu = \<lparr>m_type = Some ''mining'', m_damage_type = None, m_damage = None,
     m_ammo_use = None, m_power_use = Some pu, m_effect = None\<rparr>"

definition with_effect :: "string \<Rightarrow> (string \<times> int) list \<Rightarrow> module_def" where
  "with_effect ty eff = \<lparr>m_type = Some ty, m_damage_type = None, m_damage = None,
     m_ammo_use = None, m_power_use = None, m_effect = Some eff\<rparr>"

definition MODULES :: "(string \<times> module_def) list" where
  "MODULES =
    [(''Pulse Laser'', weapon ''energy'' (12, 22) 0 15),
     (''Mass Driver'', weapon ''kinetic'' (8, 16) 2 5),
     (''Plasma Cannon'', weapon ''blast'' (16, 28) 3 12),
     (''Beam Lance'', weapon ''energy'' (24, 38) 0 20),
     (''Basic Mining Drill'', mining 5),
     (''Advanced Drill'', mining 8),
     (''Industrial Excavator'', mining 15),
     (''Cargo Pod'', with_effect ''utility'' [(''cargo_bonus'', 25)]),
     (''Medium Cargo Bay'', with_effect ''utility'' [(''cargo_bonus'', 60)]),
     (''Passenger Hold'', with_effect ''utility'' [(''passenger_capacity'', 10)]),
     (''Shield Booster'', with_effect ''utility'' [(''shield_bonus'', 15)]),
     (''Reactor Upgrade'', with_effect ''utility'' [(''power_bonus'', 10)]),
     (''Nanite Repair Bay'', with_effect ''utility'' [(''repair_rate'', 5)]),
     (''Scanner Array'', with_effect ''special'' [(''scan_bonus'', 15)]),
     (''Warp Stabilizer'', with_effect ''special'' [(''fuel_efficiency'', 10)]),
     (''Pirate Transponder'', with_effect ''special'' [(''pirate_reputation'', 20)])]"

text \<open>\<^verbatim>\<open>def get_module(name): return MODULES.get(name, {})\<close>\<close>

definition get_module :: "string \<Rightarrow> module_def" where
  "get_module name = (case map_of MODULES name of None \<Rightarrow> no_module | Some m \<Rightarrow> m)"

subsection \<open>The player record and the ship (core/player.py)\<close>

text \<open>
  \<^verbatim>\<open>new_player\<close> and \<^verbatim>\<open>handle_ship_loss\<close> are the only writers of \<^verbatim>\<open>ship_data\<close>: it has
  the keys \<^verbatim>\<open>modules\<close>, \<^verbatim>\<open>cargo_capacity\<close> and \<^verbatim>\<open>power_grid\<close>, and the key \<^verbatim>\<open>speed\<close>
  that combat reads with a default is optional. The player dictionary carries
  \<^verbatim>\<open>credits\<close>, \<^verbatim>\<open>ammo\<close>, \<^verbatim>\<open>hull\<close>, \<^verbatim>\<open>armor\<close>, \<^verbatim>\<open>shields\<close> from \<^verbatim>\<open>new_player\<close> on; the
  keys combat never touches are left out.
\<close>

record ship_data =
  sd_modules :: int
  sd_cargo_capacity :: int
  sd_power_grid :: int
  sd_speed :: "int option"

record player =
  p_name :: string
  p_credits :: int
  p_ammo :: int
  p_hull :: int
  p_armor :: int
  p_shields :: int
  p_ship_data :: ship_data
  p_ship_modules :: "string list"

text \<open>\<^verbatim>\<open>new_player\<close>, without the keys that combat does not read.\<close>

definition new_player :: "string \<Rightarrow> player" where
  "new_player name = \<lparr>p_name = name, p_credits = 1000, p_ammo = 50, p_hull = 100, p_armor = 100,
     p_shields = 100,
     p_ship_data = \<lparr>sd_modules = 4, sd_cargo_capacity = 50, sd_power_grid = 100, sd_speed = None\<rparr>,
     p_ship_modules = [''Pulse Laser'', ''Basic Mining Drill'']\<rparr>"

text \<open>
  The inner loop of \<^verbatim>\<open>get_player_ship\<close>:
  \<^verbatim>\<open>
  for stat, bonus in eff.items():
      if stat == "shield_bonus":
          player["shields"] += bonus
      elif stat == "power_bonus":
          ship["power_grid"] += bonus
  \<close>
\<close>

fun apply_effects :: "(string \<times> int) list \<Rightarrow> player \<times> ship_data \<Rightarrow> player \<times> ship_data" where
  "apply_effects [] ps = ps"
| "apply_effects ((stat, bonus) # eff) (p, ship) =
     apply_effects eff
       (if stat = ''shield_bonus'' then (p\<lparr>p_shields := p_shields p + bonus\<rparr>, ship)
        else if stat = ''power_bonus'' then (p, ship\<lparr>sd_power_grid := sd_power_grid ship + bonus\<rparr>)
        else (p, ship))"

text \<open>
  The outer loop:
  \<^verbatim>\<open>
  for mod_name in player.get("ship_modules", []):
      mod = MODULES.get(mod_name, {})
      if mod.get("type") == "utility":
          eff = mod.get("effect", {})
          ...
  \<close>
\<close>

fun ship_bonuses :: "string list \<Rightarrow> player \<times> ship_data \<Rightarrow> player \<times> ship_data" where
  "ship_bonuses [] ps = ps"
| "ship_bonuses (mod_name # ms) ps =
     ship_bonuses ms
       (let md = get_module mod_name in
        if m_type md = Some ''utility''
        then apply_effects (case m_effect md of None \<Rightarrow> [] | Some eff \<Rightarrow> eff) ps
        else ps)"

text \<open>
  \<^verbatim>\<open>get_player_ship(player)\<close>: returns the ship copy, and the player dictionary as the
  call leaves it.
\<close>

definition get_player_ship :: "player \<Rightarrow> ship_data \<times> player" where
  "get_player_ship p = (case ship_bonuses (p_ship_modules p) (p, p_ship_data p) of (p', ship) \<Rightarrow> (ship, p'))"

subsection \<open>Combatants and log lines (core/combat.py)\<close>

text \<open>
  An enemy template is read with \<^verbatim>\<open>.get\<close> except for \<^verbatim>\<open>name\<close> and \<^verbatim>\<open>class\<close>; the
  keys \<^verbatim>\<open>id\<close> and \<^verbatim>\<open>accuracy\<close> are never read. \<^verbatim>\<open>engage_pirates\<close> copies the template
  and sets \<^verbatim>\<open>hull\<close>, \<^verbatim>\<open>armor\<close>, \<^verbatim>\<open>shields\<close>, so the enemy in combat has them.
\<close>

record enemy_template =
  t_name :: string
  t_class :: string
  t_hull :: "int option"
  t_armor :: "int option"
  t_shields :: "int option"
  t_weakness :: "(string \<times> rat) list option"
  t_damage_range :: "(int \<times> int) option"

record enemy =
  e_name :: string
  e_class :: string
  e_hull :: int
  e_armor :: int
  e_shields :: int
  e_weakness :: "(string \<times> rat) list option"
  e_damage_range :: "(int \<times> int) option"

definition PIRATE_TEMPLATE :: enemy_template where
  "PIRATE_TEMPLATE = \<lparr>t_name = ''Sholen Raider'', t_class = ''Frigate'', t_hull = Some 100,
     t_armor = Some 98, t_shields = Some 60,
     t_weakness = Some [(''kinetic'', 11 / 10), (''energy'', 9 / 10), (''blast'', 12 / 10)],
     t_damage_range = Some (8, 18)\<rparr>"

datatype log_entry =
    CombatLogHeader
  | Crit string int
  | Misfired string int
  | InsufficientAmmo string
  | InsufficientPower string
  | ShieldDamage string int int
  | HullDamage string int string int
  | NoWeapons
  | EnemyStatus string int int int
  | RollsHeader
  | RollLine string int
  | EmergencySuccess int int
  | OverloadDamaged int int
  | Overload int int
  | ScanFailed int
  | ScanResults int
  | ScanLine string rat string
  | AttemptingRetreat
  | RetreatSuccessful
  | RETREATED
  | RetreatFailed
  | TurnSkipped
  | EnemyMissed string int
  | EnemyCrit string int
  | EnemyShieldDamage string int
  | EnemyHullDamage string int
  | Scavenged

subsection \<open>The weapon volley: \<^verbatim>\<open>perform_attack\<close>\<close>

text \<open>The local variables of \<^verbatim>\<open>perform_attack\<close>, the enemy it mutates, and the tape position.\<close>

record volley =
  v_logs :: "log_entry list"
  v_power_grid :: int
  v_ammo :: int
  v_enemy :: enemy
  v_pos :: nat
  v_total_rolls :: "(string \<times> int) list"
  v_dmg_summary :: "(string \<times> int) list"
  v_used_modules :: int

text \<open>
  Lines 240--248, shields before hull:
  \<^verbatim>\<open>
  if enemy.get("shields", 0) > 0:
      to_shield = min(enemy["shields"], applied)
      enemy["shields"] -= to_shield
      applied -= to_shield
      logs.append(...)
  if applied > 0:
      enemy["hull"] -= applied
      logs.append(...)
  \<close>
\<close>

definition absorb_enemy :: "string \<Rightarrow> string \<Rightarrow> int \<Rightarrow> int \<Rightarrow> enemy \<Rightarrow> log_entry list \<times> enemy" where
  "absorb_enemy mod_name dtype attack_roll applied e =
     (case (if e_shields e > 0
            then (let to_shield = min (e_shields e) applied
                  in ([ShieldDamage mod_name to_shield attack_roll],
                      e\<lparr>e_shields := e_shields e - to_shield\<rparr>, applied - to_shield))
            else ([], e, applied))
      of (l1, e1, applied1) \<Rightarrow>
        if applied1 > 0
        then (l1 @ [HullDamage mod_name applied1 dtype attack_roll], e1\<lparr>e_hull := e_hull e1 - applied1\<rparr>)
        else (l1, e1))"

text \<open>
  Lines 238--250: the weakness multiplier, the absorption, and
  \<^verbatim>\<open>dmg_summary[dtype] += damage\<close>, which raises \<open>KeyError\<close> for a damage type that
  is not one of the three keys of \<^verbatim>\<open>dmg_summary\<close>.
\<close>

definition land_hit :: "string \<Rightarrow> string \<Rightarrow> int \<Rightarrow> int \<Rightarrow> volley \<Rightarrow> error + volley" where
  "land_hit mod_name dtype attack_roll damage v =
     (let multiplier = (case map_of (case e_weakness (v_enemy v) of None \<Rightarrow> [] | Some w \<Rightarrow> w) dtype
                        of None \<Rightarrow> 1 | Some m \<Rightarrow> m);
          applied = py_int (of_int damage * multiplier)
      in case absorb_enemy mod_name dtype attack_roll applied (v_enemy v) of (ls, e') \<Rightarrow>
         (case map_of (v_dmg_summary v) dtype of
            None \<Rightarrow> Inl KeyError
          | Some acc \<Rightarrow>
              Inr (v\<lparr>v_logs := v_logs v @ ls, v_enemy := e',
                     v_dmg_summary := map (\<lambda>(k, n). if k = dtype then (k, acc + damage) else (k, n))
                                          (v_dmg_summary v)\<rparr>)))"

text \<open>\<^verbatim>\<open>mod.get("ammo_use", 0)\<close> and \<^verbatim>\<open>mod.get("power_use", 0)\<close>.\<close>

definition ammo_use_of :: "module_def \<Rightarrow> int" where
  "ammo_use_of md = (case m_ammo_use md of None \<Rightarrow> 0 | Some n \<Rightarrow> n)"

definition power_use_of :: "module_def \<Rightarrow> int" where
  "power_use_of md = (case m_power_use md of None \<Rightarrow> 0 | Some n \<Rightarrow> n)"

text \<open>
  Lines 214--235 for one weapon module, given its attack roll and its sampled damage:
  critical or miss, then the resource check (ammo first, else power), then the hit.
\<close>

definition resolve_shot :: "string \<Rightarrow> module_def \<Rightarrow> int \<Rightarrow> int \<Rightarrow> volley \<Rightarrow> error + volley" where
  "resolve_shot mod_name md attack_roll sampled v =
     (if attack_roll \<noteq> 20 \<and> attack_roll \<le> 2
      then Inr (v\<lparr>v_logs := v_logs v @ [Misfired mod_name attack_roll]\<rparr>)
      else
        (let damage = (if attack_roll = 20 then py_int (of_int sampled * (18 / 10)) else sampled);
             v1 = (if attack_roll = 20 then v\<lparr>v_logs := v_logs v @ [Crit mod_name attack_roll]\<rparr> else v);
             dtype = (case m_damage_type md of None \<Rightarrow> ''kinetic'' | Some d \<Rightarrow> d);
             ammo_use = ammo_use_of md;
             power_use = power_use_of md
         in if ammo_use > 0
            then (if v_ammo v1 < ammo_use
                  then Inr (v1\<lparr>v_logs := v_logs v1 @ [InsufficientAmmo mod_name]\<rparr>)
                  else land_hit mod_name dtype attack_roll damage (v1\<lparr>v_ammo := v_ammo v1 - ammo_use\<rparr>))
            else if power_use > 0
            then (if v_power_grid v1 < power_use
                  then Inr (v1\<lparr>v_logs := v_logs v1 @ [InsufficientPower mod_name]\<rparr>)
                  else land_hit mod_name dtype attack_roll damage
                         (v1\<lparr>v_power_grid := v_power_grid v1 - power_use\<rparr>))
            else land_hit mod_name dtype attack_roll damage v1))"

text \<open>
  The loop \<^verbatim>\<open>for mod_name in modules\<close>: a module that is unknown or not a weapon is
  skipped without a draw; a weapon draws its d20 and then its damage.
\<close>

fun fire_modules :: "tape \<Rightarrow> string list \<Rightarrow> volley \<Rightarrow> error + volley" where
  "fire_modules t [] v = Inr v"
| "fire_modules t (mod_name # ms) v =
     (let md = get_module mod_name in
      if md = no_module \<or> m_type md \<noteq> Some ''weapon'' then fire_modules t ms v
      else
        and_then (roll_dice 20 (t (v_pos v))) (\<lambda>attack_roll.
        case (case m_damage md of None \<Rightarrow> (5, 10) | Some r \<Rightarrow> r) of (base_min, base_max) \<Rightarrow>
        and_then (randint base_min base_max (t (v_pos v + 1))) (\<lambda>sampled.
        and_then (resolve_shot mod_name md attack_roll sampled
                    (v\<lparr>v_used_modules := v_used_modules v + 1,
                       v_total_rolls := v_total_rolls v @ [(mod_name, attack_roll)],
                       v_pos := v_pos v + 2\<rparr>))
                 (\<lambda>v'. fire_modules t ms v'))))"

text \<open>Lines 195--201, the locals of \<^verbatim>\<open>perform_attack\<close> before the loop.\<close>

definition start_volley :: "nat \<Rightarrow> enemy \<Rightarrow> int \<Rightarrow> int \<Rightarrow> volley" where
  "start_volley pos e power_grid ammo =
     \<lparr>v_logs = [CombatLogHeader], v_power_grid = power_grid, v_ammo = ammo, v_enemy = e,
      v_pos = pos, v_total_rolls = [],
      v_dmg_summary = [(''kinetic'', 0), (''energy'', 0), (''blast'', 0)],
      v_used_modules = 0\<rparr>"

text \<open>
  \<^verbatim>\<open>perform_attack(player, ship_stats, enemy, modules, power_grid, ammo)\<close>; the first two
  arguments are not used in its body. It returns the logs, the power grid, the ammo, and
  here also the mutated enemy and the tape position.
\<close>

definition perform_attack ::
    "tape \<Rightarrow> nat \<Rightarrow> enemy \<Rightarrow> string list \<Rightarrow> int \<Rightarrow> int \<Rightarrow> error + (log_entry list \<times> int \<times> int \<times> enemy \<times> nat)" where
  "perform_attack t pos e modules power_grid ammo =
     and_then (fire_modules t modules (start_volley pos e power_grid ammo))
       (\<lambda>v. Inr (v_logs v
                  @ (if v_used_modules v = 0 then [NoWeapons] else [])
                  @ [EnemyStatus (e_name (v_enemy v)) (max 0 (e_hull (v_enemy v)))
                       (e_armor (v_enemy v)) (max 0 (e_shields (v_enemy v))), RollsHeader]
                  @ map (\<lambda>(mn, r). RollLine mn r) (v_total_rolls v),
                  v_power_grid v, v_ammo v, v_enemy v, v_pos v))"

subsection \<open>Special actions\<close>

text \<open>
  \<^verbatim>\<open>emergency_power(power_grid)\<close>: the d20, then the boost or the penalty, and on
  failure the 20% flavour check. Returns the log line, the new grid and the tape position.
\<close>

definition emergency_power :: "tape \<Rightarrow> nat \<Rightarrow> int \<Rightarrow> error + (log_entry \<times> int \<times> nat)" where
  "emergency_power t pos power_grid =
     and_then (roll_dice 20 (t pos)) (\<lambda>roll.
       if roll \<ge> 14
       then and_then (randint 12 30 (t (pos + 1))) (\<lambda>boost.
              Inr (EmergencySuccess roll boost, min 140 (power_grid + boost), pos + 2))
       else and_then (randint 8 25 (t (pos + 1))) (\<lambda>penalty.
            and_then (chance 20 (t (pos + 2))) (\<lambda>damaged.
              let new_grid = max 0 (power_grid - penalty)
              in if damaged then Inr (OverloadDamaged roll penalty, new_grid, pos + 3)
                 else Inr (Overload roll penalty, new_grid, pos + 3))))"

text \<open>\<^verbatim>\<open>scan_enemy(enemy)\<close>: reads the enemy, changes nothing.\<close>

definition scan_enemy :: "tape \<Rightarrow> nat \<Rightarrow> enemy \<Rightarrow> error + (log_entry list \<times> nat)" where
  "scan_enemy t pos e =
     and_then (roll_dice 20 (t pos)) (\<lambda>roll.
       Inr (if roll \<le> 5 then [ScanFailed roll]
            else ScanResults roll #
                 map (\<lambda>(dtype, mult). ScanLine dtype mult
                        (if mult > 1 then ''(w)'' else if mult < 1 then ''(r)'' else []))
                     (case e_weakness e of None \<Rightarrow> [] | Some w \<Rightarrow> w),
            pos + 1))"

text \<open>
  \<^verbatim>\<open>handle_player_action(player, ship_stats, enemy, power_grid, ammo, action)\<close>. On a
  successful retreat the source appends the marker string \<^verbatim>\<open>"[RETREATED]"\<close> to the log
  and changes nothing else (\<^verbatim>\<open>enemy["hull"] = enemy["hull"]\<close>).
\<close>

definition handle_player_action ::
    "tape \<Rightarrow> nat \<Rightarrow> player \<Rightarrow> enemy \<Rightarrow> int \<Rightarrow> int \<Rightarrow> string
       \<Rightarrow> error + (log_entry list \<times> int \<times> int \<times> enemy \<times> nat)" where
  "handle_player_action t pos p e power_grid ammo action =
     (if action = ''1'' then perform_attack t pos e (p_ship_modules p) power_grid ammo
      else if action = ''2''
      then and_then (emergency_power t pos power_grid)
             (\<lambda>(res_text, new_grid, pos'). Inr ([res_text], new_grid, ammo, e, pos'))
      else if action = ''3''
      then and_then (scan_enemy t pos e)
             (\<lambda>(scan_log, pos'). Inr (scan_log, power_grid, ammo, e, pos'))
      else if action = ''4''
      then and_then (chance 50 (t pos)) (\<lambda>escaped.
             Inr (AttemptingRetreat #
                    (if escaped then [RetreatSuccessful, RETREATED] else [RetreatFailed]),
                  power_grid, ammo, e, pos + 1))
      else Inr ([TurnSkipped], power_grid, ammo, e, pos))"

subsection \<open>The enemy's attack\<close>

text \<open>
  Lines 329--337, shields before hull, with the hull clamped at 0:
  \<^verbatim>\<open>
  if player.get("shields", 0) > 0:
      absorbed = min(player["shields"], damage)
      player["shields"] -= absorbed
      damage -= absorbed
      logs.append(...)
  if damage > 0:
      player["hull"] = max(0, player["hull"] - damage)
      logs.append(...)
  \<close>
\<close>

definition absorb_player :: "string \<Rightarrow> int \<Rightarrow> player \<Rightarrow> log_entry list \<times> player" where
  "absorb_player ename damage p =
     (case (if p_shields p > 0
            then (let absorbed = min (p_shields p) damage
                  in ([EnemyShieldDamage ename absorbed],
                      p\<lparr>p_shields := p_shields p - absorbed\<rparr>, damage - absorbed))
            else ([], p, damage))
      of (l1, p1, damage1) \<Rightarrow>
        if damage1 > 0
        then (l1 @ [EnemyHullDamage ename damage1], p1\<lparr>p_hull := max 0 (p_hull p1 - damage1)\<rparr>)
        else (l1, p1))"

text \<open>\<^verbatim>\<open>enemy_attack(player, enemy)\<close>: a roll of at most 3 misses before any damage is drawn.\<close>

definition enemy_attack :: "tape \<Rightarrow> nat \<Rightarrow> player \<Rightarrow> enemy \<Rightarrow> error + (log_entry list \<times> player \<times> nat)" where
  "enemy_attack t pos p e =
     and_then (roll_dice 20 (t pos)) (\<lambda>roll.
       if roll \<le> 3 then Inr ([EnemyMissed (e_name e) roll], p, pos + 1)
       else
         case (case e_damage_range e of None \<Rightarrow> (6, 14) | Some r \<Rightarrow> r) of (lo, hi) \<Rightarrow>
         and_then (randint lo hi (t (pos + 1))) (\<lambda>sampled.
           let damage = (if roll = 20 then py_int (of_int sampled * (18 / 10)) else sampled);
               l0 = (if roll = 20 then [EnemyCrit (e_name e) roll] else [])
           in case absorb_player (e_name e) damage p of (ls, p') \<Rightarrow> Inr (l0 @ ls, p', pos + 2)))"

subsection \<open>The combat session: \<^verbatim>\<open>engage_pirates\<close>\<close>

text \<open>
  The state of the loop of \<^verbatim>\<open>engage_pirates\<close>: the two dictionaries, the ship copy, the
  locals \<^verbatim>\<open>player_power\<close>, \<^verbatim>\<open>player_ammo\<close>, \<^verbatim>\<open>turn\<close>, the tape position, and the logs
  that \<^verbatim>\<open>print_combat_log\<close> has printed, one list per turn. The presentation calls
  (\<^verbatim>\<open>type_out\<close>, \<^verbatim>\<open>pause\<close>, music) do not touch this state.
\<close>

record session =
  s_player :: player
  s_enemy :: enemy
  s_ship_stats :: ship_data
  s_player_power :: int
  s_player_ammo :: int
  s_turn :: int
  s_pos :: nat
  s_printed :: "log_entry list list"

text \<open>Lines 58--70: the enemy copy, the ship, and the two resource locals.\<close>

definition start_session :: "nat \<Rightarrow> player \<Rightarrow> enemy_template option \<Rightarrow> session" where
  "start_session pos p enemy_template =
     (let tmpl = (case enemy_template of None \<Rightarrow> PIRATE_TEMPLATE | Some x \<Rightarrow> x);
          e = \<lparr>e_name = t_name tmpl, e_class = t_class tmpl,
               e_hull = (case t_hull tmpl of None \<Rightarrow> 100 | Some n \<Rightarrow> n),
               e_armor = (case t_armor tmpl of None \<Rightarrow> 100 | Some n \<Rightarrow> n),
               e_shields = (case t_shields tmpl of None \<Rightarrow> 50 | Some n \<Rightarrow> n),
               e_weakness = t_weakness tmpl, e_damage_range = t_damage_range tmpl\<rparr>
      in case get_player_ship p of (ship_stats, p') \<Rightarrow>
           \<lparr>s_player = p', s_enemy = e, s_ship_stats = ship_stats,
            s_player_power = sd_power_grid ship_stats, s_player_ammo = p_ammo p',
            s_turn = 1, s_pos = pos, s_printed = []\<rparr>)"

text \<open>
  Line 101, the end-of-turn power step:
  \<^verbatim>\<open>min(player_power + max(3, ship_stats.get("speed", 5) // 2), ship_stats.get("power_grid", 100))\<close>
\<close>

definition regen_power :: "int \<Rightarrow> ship_data \<Rightarrow> int" where
  "regen_power player_power ship_stats =
     min (player_power + max 3 ((case sd_speed ship_stats of None \<Rightarrow> 5 | Some v \<Rightarrow> v) div 2))
         (sd_power_grid ship_stats)"

text \<open>
  Lines 82--113, one pass of the loop body for the action that \<^verbatim>\<open>combat_menu\<close> returned:
  the player's action, the enemy's attack if the enemy's hull is positive, the power
  regeneration and the 5% ammo, the printing of the turn's log.
\<close>

definition turn_body :: "tape \<Rightarrow> string \<Rightarrow> session \<Rightarrow> error + session" where
  "turn_body t action s =
     and_then (handle_player_action t (s_pos s) (s_player s) (s_enemy s)
                 (s_player_power s) (s_player_ammo s) action)
       (\<lambda>(p_log, power1, ammo1, e1, pos1).
     and_then (if e_hull e1 > 0 then enemy_attack t pos1 (s_player s) e1
               else Inr ([], s_player s, pos1))
       (\<lambda>(e_log, p1, pos2).
     and_then (chance 5 (t pos2))
       (\<lambda>scavenged.
          Inr (s\<lparr>s_player := p1, s_enemy := e1,
                 s_player_power := regen_power power1 (s_ship_stats s),
                 s_player_ammo := (if scavenged then ammo1 + 1 else ammo1),
                 s_turn := s_turn s + 1, s_pos := pos2 + 1,
                 s_printed := s_printed s @ [p_log @ e_log @ (if scavenged then [Scavenged] else [])]\<rparr>))))"

text \<open>
  \<^verbatim>\<open>while enemy["hull"] > 0 and player["hull"] > 0\<close>, over the answers that
  \<^verbatim>\<open>combat_menu\<close> reads; at the end of the input \<^verbatim>\<open>input()\<close> raises \<open>EOFError\<close>.
\<close>

fun combat_loop :: "tape \<Rightarrow> string list \<Rightarrow> session \<Rightarrow> error + session" where
  "combat_loop t [] s =
     (if e_hull (s_enemy s) > 0 \<and> p_hull (s_player s) > 0 then Inl EOFError else Inr s)"
| "combat_loop t (action # actions) s =
     (if e_hull (s_enemy s) > 0 \<and> p_hull (s_player s) > 0
      then and_then (turn_body t action s) (\<lambda>s'. combat_loop t actions s')
      else Inr s)"

text \<open>
  Lines 115--131, the resolution: what \<^verbatim>\<open>engage_pirates\<close> returns, the player dictionary
  as the caller finds it, and the record that \<^verbatim>\<open>save_player\<close> wrote to the store.
\<close>

record outcome =
  o_result :: bool
  o_player :: player
  o_saved :: player

definition combat_resolution :: "tape \<Rightarrow> session \<Rightarrow> error + outcome" where
  "combat_resolution t s =
     (if p_hull (s_player s) \<le> 0
      then Inr \<lparr>o_result = False, o_player = s_player s, o_saved = s_player s\<rparr>
      else and_then (randint 150 400 (t (s_pos s))) (\<lambda>reward.
             let p' = (s_player s)\<lparr>p_credits := p_credits (s_player s) + reward\<rparr>
             in Inr \<lparr>o_result = True, o_player = p', o_saved = p'\<rparr>))"

definition engage_pirates :: "tape \<Rightarrow> string list \<Rightarrow> player \<Rightarrow> enemy_template option \<Rightarrow> error + outcome" where
  "engage_pirates t actions p enemy_template =
     and_then (combat_loop t actions (start_session 0 p enemy_template)) (combat_resolution t)"

subsection \<open>Module bonuses, as the registry states them\<close>

text \<open>
  The bonus that an installed module grants for a statistic: the sum of the entries of
  that name in the effect of a utility module, and 0 for any other module.
\<close>
definition stat_bonus :: "string \<Rightarrow> string \<Rightarrow> int" where
  "stat_bonus stat mod_name =
     (let md = get_module mod_name in
      if m_type md = Some ''utility''
      then sum_list (map snd (filter (\<lambda>(s, b). s = stat) (case m_effect md of None \<Rightarrow> [] | Some eff \<Rightarrow> eff)))
      else 0)"

subsection \<open>Concrete inputs\<close>

text \<open>A player down to 5 hull and no shields, and a raider down to 5 hull and no shields.\<close>

definition hurt_player :: player where
  "hurt_player = (new_player ''pilot'')\<lparr>p_hull := 5, p_shields := 0\<rparr>"

text \<open>The raider of \<^verbatim>\<open>PIRATE_TEMPLATE\<close> as a session starts with it.\<close>

definition raider :: enemy where
  "raider = s_enemy (start_session 0 (new_player ''pilot'') None)"

definition weak_enemy :: enemy where
  "weak_enemy = \<lparr>e_name = ''Sholen Raider'', e_class = ''Frigate'', e_hull = 5, e_armor = 98,
     e_shields = 0,
     e_weakness = Some [(''kinetic'', 11 / 10), (''energy'', 9 / 10), (''blast'', 12 / 10)],
     e_damage_range = Some (8, 18)\<rparr>"

text \<open>
  A raider template with 5 hull and no shields, and a pilot whose starter ship also
  carries a Mass Driver.
\<close>

definition weak_template :: enemy_template where
  "weak_template = PIRATE_TEMPLATE\<lparr>t_hull := Some 5, t_shields := Some 0\<rparr>"

definition gunner :: player where
  "gunner = (new_player ''pilot'')
     \<lparr>p_ship_modules := [''Pulse Laser'', ''Basic Mining Drill'', ''Mass Driver'']\<rparr>"

text \<open>The session of that pilot against that raider, as \<^verbatim>\<open>engage_pirates\<close> starts it.\<close>

definition skirmish :: session where
  "skirmish = start_session 0 gunner (Some weak_template)"

text \<open>
  The session of a new pilot against the raider of \<^verbatim>\<open>PIRATE_TEMPLATE\<close>, and two
  sequences of draws: one for a turn of Emergency Power that succeeds (roll 14, boost 12,
  the enemy misses), and one for a retreat that succeeds (the enemy then hits the shields
  for 8), followed by five critical Pulse Laser hits while the enemy misses.
\<close>

definition first_turn :: session where
  "first_turn = start_session 0 (new_player ''pilot'') None"

definition boost_tape :: tape where
  "boost_tape = tape_of [13, 0, 0, 50]"

definition retreat_tape :: tape where
  "retreat_tape = tape_of [0, 9, 0, 50, 19, 10, 0, 50, 19, 10, 0, 50, 19, 10, 0, 50,
                           19, 10, 0, 50, 19, 10, 50, 0]"

section \<open>Properties\<close>

subsection \<open>Reading the ship is not free of side effects\<close>

lemma apply_effects_shields:
  "p_shields (fst (apply_effects eff (p, ship))) =
     p_shields p + sum_list (map snd (filter (\<lambda>(s, b). s = ''shield_bonus'') eff))"
  by (induction eff arbitrary: p ship) auto

lemma apply_effects_power:
  "sd_power_grid (snd (apply_effects eff (p, ship))) =
     sd_power_grid ship + sum_list (map snd (filter (\<lambda>(s, b). s = ''power_bonus'') eff))"
  by (induction eff arbitrary: p ship) auto

lemma apply_effects_frame:
  "p_ship_data (fst (apply_effects eff (p, ship))) = p_ship_data p \<and>
   p_ship_modules (fst (apply_effects eff (p, ship))) = p_ship_modules p \<and>
   p_hull (fst (apply_effects eff (p, ship))) = p_hull p \<and>
   p_ammo (fst (apply_effects eff (p, ship))) = p_ammo p \<and>
   p_credits (fst (apply_effects eff (p, ship))) = p_credits p"
  by (induction eff arbitrary: p ship) auto

lemma ship_bonuses_shields:
  "p_shields (fst (ship_bonuses ms ps)) =
     p_shields (fst ps) + sum_list (map (stat_bonus ''shield_bonus'') ms)"
proof (induction ms arbitrary: ps)
  case Nil
  show ?case by simp
next
  case (Cons m ms)
  obtain p ship where ps: "ps = (p, ship)" by (cases ps)
  show ?case
    by (simp add: Cons.IH ps Let_def stat_bonus_def apply_effects_shields)
qed

lemma ship_bonuses_power:
  "sd_power_grid (snd (ship_bonuses ms ps)) =
     sd_power_grid (snd ps) + sum_list (map (stat_bonus ''power_bonus'') ms)"
proof (induction ms arbitrary: ps)
  case Nil
  show ?case by simp
next
  case (Cons m ms)
  obtain p ship where ps: "ps = (p, ship)" by (cases ps)
  show ?case
    by (simp add: Cons.IH ps Let_def stat_bonus_def apply_effects_power)
qed

lemma ship_bonuses_frame:
  "p_ship_data (fst (ship_bonuses ms ps)) = p_ship_data (fst ps) \<and>
   p_ship_modules (fst (ship_bonuses ms ps)) = p_ship_modules (fst ps) \<and>
   p_hull (fst (ship_bonuses ms ps)) = p_hull (fst ps) \<and>
   p_ammo (fst (ship_bonuses ms ps)) = p_ammo (fst ps) \<and>
   p_credits (fst (ship_bonuses ms ps)) = p_credits (fst ps)"
proof (induction ms arbitrary: ps)
  case Nil
  show ?case by simp
next
  case (Cons m ms)
  obtain p ship where ps: "ps = (p, ship)" by (cases ps)
  show ?case
    by (simp add: Cons.IH ps Let_def apply_effects_frame)
qed

lemma stat_bonus_Shield_Booster: "stat_bonus ''shield_bonus'' ''Shield Booster'' = 15"
  by (simp add: stat_bonus_def get_module_def MODULES_def with_effect_def weapon_def mining_def)

text \<open>
  Claim C10. Every call of \<^verbatim>\<open>get_player_ship\<close> adds the shield bonus of each installed
  utility module to the player's own \<^verbatim>\<open>shields\<close> field, and the power bonus to the
  returned ship copy only (the player's \<^verbatim>\<open>ship_data\<close> is unchanged). A combat session
  starts with such a call, so with a Shield Booster (bonus 15) the player's shields are
  raised by 15 at every encounter.
\<close>

theorem get_player_ship_mutates_shields:
  "p_shields (snd (get_player_ship p)) =
     p_shields p + sum_list (map (stat_bonus ''shield_bonus'') (p_ship_modules p))
   \<and> sd_power_grid (fst (get_player_ship p)) =
     sd_power_grid (p_ship_data p) + sum_list (map (stat_bonus ''power_bonus'') (p_ship_modules p))
   \<and> p_ship_data (snd (get_player_ship p)) = p_ship_data p
   \<and> p_shields (s_player (start_session pos p tmpl)) =
     p_shields p + sum_list (map (stat_bonus ''shield_bonus'') (p_ship_modules p))
   \<and> stat_bonus ''shield_bonus'' ''Shield Booster'' = 15"
  using ship_bonuses_shields [of "p_ship_modules p" "(p, p_ship_data p)"]
        ship_bonuses_power [of "p_ship_modules p" "(p, p_ship_data p)"]
        ship_bonuses_frame [of "p_ship_modules p" "(p, p_ship_data p)"]
  by (simp add: get_player_ship_def start_session_def Let_def split_beta stat_bonus_Shield_Booster)

text \<open>Two encounters in a row with one Shield Booster installed: 30 more shields.\<close>

lemma shield_booster_each_encounter:
  "p_ship_modules p = [''Pulse Laser'', ''Shield Booster''] \<Longrightarrow>
   p_shields (snd (get_player_ship (snd (get_player_ship p)))) = p_shields p + 30"
  by (simp add: get_player_ship_def get_module_def MODULES_def with_effect_def weapon_def mining_def)


subsection \<open>Shields before hull\<close>

lemma absorb_enemy_shields:
  "0 \<le> d \<Longrightarrow> 0 \<le> e_shields e \<Longrightarrow>
   e_shields (snd (absorb_enemy n dt r d e)) = max 0 (e_shields e - d)"
  by (auto simp: absorb_enemy_def Let_def)

lemma absorb_enemy_hull:
  "0 \<le> d \<Longrightarrow> 0 \<le> e_shields e \<Longrightarrow>
   e_hull (snd (absorb_enemy n dt r d e)) = e_hull e - max 0 (d - e_shields e)"
  by (auto simp: absorb_enemy_def Let_def)

lemma absorb_player_shields:
  "0 \<le> d \<Longrightarrow> 0 \<le> p_shields p \<Longrightarrow>
   p_shields (snd (absorb_player n d p)) = max 0 (p_shields p - d)"
  by (auto simp: absorb_player_def Let_def)

lemma absorb_player_hull:
  "0 \<le> d \<Longrightarrow> 0 \<le> p_shields p \<Longrightarrow> 0 \<le> p_hull p \<Longrightarrow>
   p_hull (snd (absorb_player n d p)) = max 0 (p_hull p - max 0 (d - p_shields p))"
  by (auto simp: absorb_player_def Let_def)

lemma absorb_player_hull_nonneg:
  "0 \<le> p_hull p \<Longrightarrow> 0 \<le> p_hull (snd (absorb_player n d p))"
  by (auto simp: absorb_player_def Let_def)

text \<open>
  Claim C3, as stated, fails for the player as target: with hull 5, no shields and an
  enemy hit of 10 the player's hull becomes 0, not \<open>5 - max 0 (10 - 0) = - 5\<close>.
\<close>

theorem player_hull_formula_counterexample:
  "p_hull (snd (absorb_player ''Sholen Raider'' 10 hurt_player))
     \<noteq> p_hull hurt_player - max 0 (10 - p_shields hurt_player)"
  by (simp add: absorb_player_def hurt_player_def new_player_def Let_def)

text \<open>
  Claim C3, amended. For every damage application with effective damage \<open>d \<ge> 0\<close> to a
  target whose shields are not negative, the new shields are \<open>max 0 (shields - d)\<close>, so
  they never go negative. The enemy's new hull is \<open>hull - max 0 (d - shields)\<close> and may
  go negative; the player's new hull (not negative before) is that value clamped at 0:
  \<open>max 0 (hull - max 0 (d - shields))\<close>.
\<close>

theorem damage_application:
  assumes "0 \<le> d" and "0 \<le> e_shields e" and "0 \<le> p_shields p" and "0 \<le> p_hull p"
  shows "e_shields (snd (absorb_enemy n dt r d e)) = max 0 (e_shields e - d)
       \<and> e_hull (snd (absorb_enemy n dt r d e)) = e_hull e - max 0 (d - e_shields e)
       \<and> p_shields (snd (absorb_player n d p)) = max 0 (p_shields p - d)
       \<and> p_hull (snd (absorb_player n d p)) = max 0 (p_hull p - max 0 (d - p_shields p))
       \<and> 0 \<le> e_shields (snd (absorb_enemy n dt r d e))
       \<and> 0 \<le> p_shields (snd (absorb_player n d p))"
  using assms
  by (simp add: absorb_enemy_shields absorb_enemy_hull absorb_player_shields absorb_player_hull)

theorem damage_application_witness:
  "e_shields (snd (absorb_enemy ''Pulse Laser'' ''energy'' 10 18 weak_enemy)) = 0
   \<and> e_hull (snd (absorb_enemy ''Pulse Laser'' ''energy'' 10 18 weak_enemy)) = - 13
   \<and> p_shields (snd (absorb_player ''Sholen Raider'' 18 hurt_player)) = 0
   \<and> p_hull (snd (absorb_player ''Sholen Raider'' 18 hurt_player)) = 0"
  using damage_application [where d = 18 and e = weak_enemy and p = hurt_player
          and n = "''Pulse Laser''" and dt = "''energy''" and r = 10]
        damage_application [where d = 18 and e = weak_enemy and p = hurt_player
          and n = "''Sholen Raider''"]
  by (simp add: weak_enemy_def hurt_player_def new_player_def)

lemma enemy_attack_cases:
  assumes "enemy_attack t pos p e = Inr (lg, p', pos')"
  shows "p' = p \<or> (\<exists>d. p' = snd (absorb_player (e_name e) d p))"
  using assms
  by (auto simp: enemy_attack_def roll_dice_def randint_def Let_def
           split: if_splits prod.splits) (metis snd_conv)+

text \<open>
  Claim C8. An enemy attack is made only under the loop guard, with the player's hull
  positive; after it the player's hull is not negative, and a remainder after shields
  that is at least the hull leaves exactly 0. The enemy's hull under a player hit has no
  clamp: a hit larger than shields plus hull leaves it negative.
\<close>

theorem hull_clamp_asymmetry:
  "(enemy_attack t pos p e = Inr (lg, p', pos') \<and> 0 < p_hull p \<longrightarrow> 0 \<le> p_hull p')
   \<and> (0 \<le> p_shields p \<and> p_shields p < d \<and> p_hull p \<le> d - p_shields p
        \<longrightarrow> p_hull (snd (absorb_player n d p)) = 0)
   \<and> (0 \<le> e_shields en \<and> e_shields en + e_hull en < d
        \<longrightarrow> e_hull (snd (absorb_enemy n dt r d en)) < 0)"
proof (intro conjI impI)
  assume a: "enemy_attack t pos p e = Inr (lg, p', pos') \<and> 0 < p_hull p"
  then have h: "0 \<le> p_hull p" by simp
  from a have "p' = p \<or> (\<exists>d. p' = snd (absorb_player (e_name e) d p))"
    using enemy_attack_cases by blast
  then show "0 \<le> p_hull p'"
    using h absorb_player_hull_nonneg by auto
next
  assume "0 \<le> p_shields p \<and> p_shields p < d \<and> p_hull p \<le> d - p_shields p"
  then show "p_hull (snd (absorb_player n d p)) = 0"
    by (auto simp: absorb_player_def Let_def)
next
  assume "0 \<le> e_shields en \<and> e_shields en + e_hull en < d"
  then show "e_hull (snd (absorb_enemy n dt r d en)) < 0"
    by (auto simp: absorb_enemy_def Let_def)
qed

lemma enemy_attack_on_hurt_player:
  "enemy_attack (tape_of [9, 10]) 0 hurt_player weak_enemy
     = Inr ([EnemyHullDamage ''Sholen Raider'' 18], hurt_player\<lparr>p_hull := 0\<rparr>, 2)"
  by (simp add: enemy_attack_def roll_dice_def randint_def tape_of_def absorb_player_def
        weak_enemy_def hurt_player_def new_player_def Let_def)

theorem hull_clamp_asymmetry_witness:
  "enemy_attack (tape_of [9, 10]) 0 hurt_player weak_enemy
     = Inr ([EnemyHullDamage ''Sholen Raider'' 18], hurt_player\<lparr>p_hull := 0\<rparr>, 2)
   \<and> 0 < p_hull hurt_player
   \<and> 0 \<le> p_hull (hurt_player\<lparr>p_hull := 0\<rparr>)
   \<and> p_hull (snd (absorb_player ''Sholen Raider'' 18 hurt_player)) = 0
   \<and> e_hull (snd (absorb_enemy ''Pulse Laser'' ''energy'' 10 18 weak_enemy)) < 0"
  using hull_clamp_asymmetry [where t = "tape_of [9, 10]" and pos = 0 and p = hurt_player
          and e = weak_enemy and lg = "[EnemyHullDamage ''Sholen Raider'' 18]"
          and p' = "hurt_player\<lparr>p_hull := 0\<rparr>" and pos' = 2 and d = 18
          and n = "''Sholen Raider''" and en = weak_enemy and dt = "''energy''" and r = 10]
        hull_clamp_asymmetry [where p = hurt_player and d = 18 and en = weak_enemy
          and n = "''Pulse Laser''" and dt = "''energy''" and r = 10]
        enemy_attack_on_hurt_player
  by (simp add: weak_enemy_def hurt_player_def new_player_def)

subsection \<open>Emergency Power on success\<close>

lemma emergency_power_success:
  "roll_dice 20 (t pos) = Inr roll \<Longrightarrow> 14 \<le> roll \<Longrightarrow> randint 12 30 (t (pos + 1)) = Inr boost \<Longrightarrow>
   emergency_power t pos g = Inr (EmergencySuccess roll boost, min 140 (g + boost), pos + 2)"
  by (simp add: emergency_power_def)

text \<open>
  On a starter ship (power-grid cap 100) at full power, a successful Emergency Power with
  roll 14 and boost 12 gives 112: the success branch caps at the constant 140.
\<close>

lemma emergency_power_over_cap:
  "emergency_power (tape_of [13, 0]) 0 100 = Inr (EmergencySuccess 14 12, 112, 2)"
  by (simp add: emergency_power_def roll_dice_def randint_def tape_of_def)

subsection \<open>Critical hits and misfires\<close>

lemma py_int_crit: "0 \<le> x \<Longrightarrow> py_int (of_int x * (18 / 10)) = 9 * x div 5"
proof -
  assume x: "0 \<le> x"
  have e: "(of_int x :: rat) * (18 / 10) = of_int (9 * x) / of_int 5" by simp
  have "py_int (of_int x * (18 / 10)) = \<lfloor>(of_int x :: rat) * (18 / 10)\<rfloor>"
    using x by (simp add: py_int_def)
  also have "\<dots> = \<lfloor>(of_int (9 * x) :: rat) / of_int 5\<rfloor>"
    by (subst e) (rule refl)
  also have "\<dots> = 9 * x div 5"
    by (rule floor_divide_of_int_eq)
  finally show ?thesis .
qed

lemma land_hit_frame:
  "land_hit n dt r d v = Inr v' \<Longrightarrow>
   v_ammo v' = v_ammo v \<and> v_power_grid v' = v_power_grid v \<and> v_pos v' = v_pos v"
  by (auto simp: land_hit_def Let_def split: prod.splits option.splits)

lemma absorb_enemy_roll: "snd (absorb_enemy n dt r d e) = snd (absorb_enemy n dt r' d e)"
  by (auto simp: absorb_enemy_def Let_def)

lemma land_hit_roll:
  "v_enemy v2 = v_enemy v \<Longrightarrow> v_dmg_summary v2 = v_dmg_summary v \<Longrightarrow>
   map_sum id v_enemy (land_hit n dt r d v2) = map_sum id v_enemy (land_hit n dt r' d v)"
  using absorb_enemy_roll [of n dt r _ "v_enemy v" r']
  by (auto simp: land_hit_def Let_def split: prod.splits option.splits) (metis snd_conv)+

lemma land_hit_roll_ammo:
  "v_enemy v2 = v_enemy v \<Longrightarrow> v_dmg_summary v2 = v_dmg_summary v \<Longrightarrow> v_ammo v2 = v_ammo v \<Longrightarrow>
   map_sum id v_ammo (land_hit n dt r d v2) = map_sum id v_ammo (land_hit n dt r' d v)"
  by (auto simp: land_hit_def Let_def split: prod.splits option.splits)

lemma land_hit_roll_power:
  "v_enemy v2 = v_enemy v \<Longrightarrow> v_dmg_summary v2 = v_dmg_summary v \<Longrightarrow> v_power_grid v2 = v_power_grid v \<Longrightarrow>
   map_sum id v_power_grid (land_hit n dt r d v2) = map_sum id v_power_grid (land_hit n dt r' d v)"
  by (auto simp: land_hit_def Let_def split: prod.splits option.splits)

lemma resolve_shot_miss:
  "r \<le> 2 \<Longrightarrow> resolve_shot n md r x v = Inr (v\<lparr>v_logs := v_logs v @ [Misfired n r]\<rparr>)"
  by (simp add: resolve_shot_def)

lemma resolve_shot_crit_enemy:
  "2 < r \<Longrightarrow> r \<noteq> 20 \<Longrightarrow>
   map_sum id v_enemy (resolve_shot n md 20 x v)
     = map_sum id v_enemy (resolve_shot n md r (py_int (of_int x * (18 / 10))) v)"
  by (simp add: resolve_shot_def Let_def land_hit_roll)

lemma resolve_shot_crit_ammo:
  "2 < r \<Longrightarrow> r \<noteq> 20 \<Longrightarrow>
   map_sum id v_ammo (resolve_shot n md 20 x v)
     = map_sum id v_ammo (resolve_shot n md r (py_int (of_int x * (18 / 10))) v)"
  by (simp add: resolve_shot_def Let_def land_hit_roll_ammo)

lemma resolve_shot_crit_power:
  "2 < r \<Longrightarrow> r \<noteq> 20 \<Longrightarrow>
   map_sum id v_power_grid (resolve_shot n md 20 x v)
     = map_sum id v_power_grid (resolve_shot n md r (py_int (of_int x * (18 / 10))) v)"
  by (simp add: resolve_shot_def Let_def land_hit_roll_power)

lemma resolve_shot_crit_no_ammo:
  "0 < ammo_use_of md \<Longrightarrow> v_ammo v < ammo_use_of md \<Longrightarrow>
   resolve_shot n md 20 x v = Inr (v\<lparr>v_logs := v_logs v @ [Crit n 20, InsufficientAmmo n]\<rparr>)"
  by (simp add: resolve_shot_def Let_def)

text \<open>
  Claim C4. For any module, whatever its damage type: a roll of at most 2 is a miss that
  only adds a log line (enemy, ammo and power are as before); a roll of 20 with sampled
  damage \<open>x\<close> leaves the enemy, the ammo and the power exactly as an ordinary hit with
  damage \<open>int (x * 1.8)\<close> would, so it goes through the same resource check -- with too
  little ammo the critical shot is rejected --, and for \<open>x \<ge> 0\<close> that damage is
  \<open>9 * x div 5\<close>.
\<close>

theorem weapon_roll_outcomes:
  "(r \<le> 2 \<longrightarrow> resolve_shot n md r x v = Inr (v\<lparr>v_logs := v_logs v @ [Misfired n r]\<rparr>))
   \<and> (2 < r' \<and> r' \<noteq> 20 \<longrightarrow>
        map_sum id v_enemy (resolve_shot n md 20 x v)
          = map_sum id v_enemy (resolve_shot n md r' (py_int (of_int x * (18 / 10))) v)
      \<and> map_sum id v_ammo (resolve_shot n md 20 x v)
          = map_sum id v_ammo (resolve_shot n md r' (py_int (of_int x * (18 / 10))) v)
      \<and> map_sum id v_power_grid (resolve_shot n md 20 x v)
          = map_sum id v_power_grid (resolve_shot n md r' (py_int (of_int x * (18 / 10))) v))
   \<and> (0 < ammo_use_of mda \<and> v_ammo va < ammo_use_of mda \<longrightarrow>
        resolve_shot na mda 20 xa va
          = Inr (va\<lparr>v_logs := v_logs va @ [Crit na 20, InsufficientAmmo na]\<rparr>))
   \<and> (0 \<le> x \<longrightarrow> py_int (of_int x * (18 / 10)) = 9 * x div 5)"
proof -
  have c1: "r \<le> 2 \<longrightarrow> resolve_shot n md r x v = Inr (v\<lparr>v_logs := v_logs v @ [Misfired n r]\<rparr>)"
    by (intro impI) (rule resolve_shot_miss)
  have c2: "2 < r' \<and> r' \<noteq> 20 \<longrightarrow>
        map_sum id v_enemy (resolve_shot n md 20 x v)
          = map_sum id v_enemy (resolve_shot n md r' (py_int (of_int x * (18 / 10))) v)
      \<and> map_sum id v_ammo (resolve_shot n md 20 x v)
          = map_sum id v_ammo (resolve_shot n md r' (py_int (of_int x * (18 / 10))) v)
      \<and> map_sum id v_power_grid (resolve_shot n md 20 x v)
          = map_sum id v_power_grid (resolve_shot n md r' (py_int (of_int x * (18 / 10))) v)"
    by (intro impI conjI; elim conjE)
       (rule resolve_shot_crit_enemy resolve_shot_crit_ammo resolve_shot_crit_power; assumption)+
  have c3: "0 < ammo_use_of mda \<and> v_ammo va < ammo_use_of mda \<longrightarrow>
        resolve_shot na mda 20 xa va
          = Inr (va\<lparr>v_logs := v_logs va @ [Crit na 20, InsufficientAmmo na]\<rparr>)"
    by (intro impI, elim conjE) (rule resolve_shot_crit_no_ammo; assumption)
  have c4: "0 \<le> x \<longrightarrow> py_int (of_int x * (18 / 10)) = 9 * x div 5"
    by (intro impI) (rule py_int_crit)
  show ?thesis
    by (rule conjI [OF c1 conjI [OF c2 conjI [OF c3 c4]]])
qed

lemma mass_driver_costs:
  "ammo_use_of (get_module ''Mass Driver'') = 2 \<and> power_use_of (get_module ''Mass Driver'') = 5"
  by (simp add: ammo_use_of_def power_use_of_def get_module_def MODULES_def weapon_def)

lemma mass_driver_crit_hit:
  "map_sum id v_enemy
     (resolve_shot ''Mass Driver'' (get_module ''Mass Driver'') 20 16 (start_volley 0 raider 100 50))
     = Inr (raider\<lparr>e_shields := 30\<rparr>)
   \<and> map_sum id v_ammo
     (resolve_shot ''Mass Driver'' (get_module ''Mass Driver'') 20 16 (start_volley 0 raider 100 50))
     = Inr 48
   \<and> map_sum id v_power_grid
     (resolve_shot ''Mass Driver'' (get_module ''Mass Driver'') 20 16 (start_volley 0 raider 100 50))
     = Inr 100"
  by code_simp

theorem weapon_roll_outcomes_witness:
  "resolve_shot ''Mass Driver'' (get_module ''Mass Driver'') 2 16 (start_volley 0 raider 100 50)
     = Inr ((start_volley 0 raider 100 50)\<lparr>v_logs := [CombatLogHeader, Misfired ''Mass Driver'' 2]\<rparr>)
   \<and> map_sum id v_enemy
       (resolve_shot ''Mass Driver'' (get_module ''Mass Driver'') 10 28 (start_volley 0 raider 100 50))
     = Inr (raider\<lparr>e_shields := 30\<rparr>)
   \<and> map_sum id v_ammo
       (resolve_shot ''Mass Driver'' (get_module ''Mass Driver'') 10 28 (start_volley 0 raider 100 50))
     = Inr 48
   \<and> map_sum id v_power_grid
       (resolve_shot ''Mass Driver'' (get_module ''Mass Driver'') 10 28 (start_volley 0 raider 100 50))
     = Inr 100
   \<and> resolve_shot ''Mass Driver'' (get_module ''Mass Driver'') 20 16 (start_volley 0 raider 100 1)
     = Inr ((start_volley 0 raider 100 1)\<lparr>v_logs :=
              [CombatLogHeader, Crit ''Mass Driver'' 20, InsufficientAmmo ''Mass Driver'']\<rparr>)
   \<and> py_int (of_int 16 * (18 / 10)) = 28"
proof -
  note T = weapon_roll_outcomes [where r = 2 and r' = 10 and x = 16 and n = "''Mass Driver''"
      and md = "get_module ''Mass Driver''" and v = "start_volley 0 raider 100 50"
      and na = "''Mass Driver''" and mda = "get_module ''Mass Driver''" and xa = 16
      and va = "start_volley 0 raider 100 1"]
  have h3: "0 < ammo_use_of (get_module ''Mass Driver'')
      \<and> v_ammo (start_volley 0 raider 100 1) < ammo_use_of (get_module ''Mass Driver'')"
    by (simp add: mass_driver_costs start_volley_def)
  have d: "py_int (of_int 16 * (18 / 10)) = 28"
    using T by simp
  have m: "resolve_shot ''Mass Driver'' (get_module ''Mass Driver'') 2 16 (start_volley 0 raider 100 50)
     = Inr ((start_volley 0 raider 100 50)\<lparr>v_logs := [CombatLogHeader, Misfired ''Mass Driver'' 2]\<rparr>)"
    using T by (simp add: start_volley_def)
  have c: "resolve_shot ''Mass Driver'' (get_module ''Mass Driver'') 20 16 (start_volley 0 raider 100 1)
     = Inr ((start_volley 0 raider 100 1)\<lparr>v_logs :=
              [CombatLogHeader, Crit ''Mass Driver'' 20, InsufficientAmmo ''Mass Driver'']\<rparr>)"
    using T h3 by (simp add: start_volley_def)
  have e: "map_sum id v_enemy
       (resolve_shot ''Mass Driver'' (get_module ''Mass Driver'') 20 16 (start_volley 0 raider 100 50))
     = map_sum id v_enemy
       (resolve_shot ''Mass Driver'' (get_module ''Mass Driver'') 10 28 (start_volley 0 raider 100 50))"
    and a: "map_sum id v_ammo
       (resolve_shot ''Mass Driver'' (get_module ''Mass Driver'') 20 16 (start_volley 0 raider 100 50))
     = map_sum id v_ammo
       (resolve_shot ''Mass Driver'' (get_module ''Mass Driver'') 10 28 (start_volley 0 raider 100 50))"
    and p: "map_sum id v_power_grid
       (resolve_shot ''Mass Driver'' (get_module ''Mass Driver'') 20 16 (start_volley 0 raider 100 50))
     = map_sum id v_power_grid
       (resolve_shot ''Mass Driver'' (get_module ''Mass Driver'') 10 28 (start_volley 0 raider 100 50))"
    using T d by simp_all
  from m e a p c d mass_driver_crit_hit show ?thesis by simp
qed

subsection \<open>Ammo and power are never driven below zero\<close>

lemma and_then_Inr: "and_then m f = Inr y \<longleftrightarrow> (\<exists>x. m = Inr x \<and> f x = Inr y)"
  by (cases m) auto

lemma land_hit_enemy_only:
  "land_hit n dt r d v = Inr v' \<Longrightarrow>
   v_ammo v' = v_ammo v \<and> v_power_grid v' = v_power_grid v"
  by (auto simp: land_hit_def Let_def split: prod.splits option.splits)
















subsection \<open>Which cost a weapon is charged\<close>




lemma resolve_shot_no_cost:
  assumes "2 < r" and "\<not> 0 < ammo_use_of md" and "\<not> 0 < power_use_of md"
    and "resolve_shot n md r x v = Inr v'"
  shows "v_ammo v' = v_ammo v \<and> v_power_grid v' = v_power_grid v"
  using assms
  by (auto simp: resolve_shot_def Let_def split: if_splits dest!: land_hit_enemy_only)







subsection \<open>The end of a turn\<close>

lemma turn_body_steps:
  assumes "turn_body t a s = Inr s'"
    and "handle_player_action t (s_pos s) (s_player s) (s_enemy s)
           (s_player_power s) (s_player_ammo s) a = Inr (lg, power1, ammo1, e1, pos1)"
  shows "\<exists>e_log p1 pos2 sc.
           (if e_hull e1 > 0 then enemy_attack t pos1 (s_player s) e1
            else Inr ([], s_player s, pos1)) = Inr (e_log, p1, pos2)
         \<and> chance 5 (t pos2) = Inr sc
         \<and> s' = s\<lparr>s_player := p1, s_enemy := e1,
                 s_player_power := regen_power power1 (s_ship_stats s),
                 s_player_ammo := (if sc then ammo1 + 1 else ammo1),
                 s_turn := s_turn s + 1, s_pos := pos2 + 1,
                 s_printed := s_printed s @ [lg @ e_log @ (if sc then [Scavenged] else [])]\<rparr>"
proof -
  from assms(1) have
    "and_then (if e_hull e1 > 0 then enemy_attack t pos1 (s_player s) e1
               else Inr ([], s_player s, pos1))
       (\<lambda>(e_log, p1, pos2).
     and_then (chance 5 (t pos2))
       (\<lambda>scavenged.
          Inr (s\<lparr>s_player := p1, s_enemy := e1,
                 s_player_power := regen_power power1 (s_ship_stats s),
                 s_player_ammo := (if scavenged then ammo1 + 1 else ammo1),
                 s_turn := s_turn s + 1, s_pos := pos2 + 1,
                 s_printed := s_printed s @ [lg @ e_log @ (if scavenged then [Scavenged] else [])]\<rparr>))) = Inr s'"
    unfolding turn_body_def assms(2) by simp
  then obtain y where
    y: "(if e_hull e1 > 0 then enemy_attack t pos1 (s_player s) e1
               else Inr ([], s_player s, pos1)) = Inr y"
    and r: "(case y of (e_log, p1, pos2) \<Rightarrow>
     and_then (chance 5 (t pos2))
       (\<lambda>scavenged.
          Inr (s\<lparr>s_player := p1, s_enemy := e1,
                 s_player_power := regen_power power1 (s_ship_stats s),
                 s_player_ammo := (if scavenged then ammo1 + 1 else ammo1),
                 s_turn := s_turn s + 1, s_pos := pos2 + 1,
                 s_printed := s_printed s @ [lg @ e_log @ (if scavenged then [Scavenged] else [])]\<rparr>))) = Inr s'"
    unfolding and_then_Inr by blast
  obtain e_log p1 pos2 where yy: "y = (e_log, p1, pos2)" by (cases y)
  from r obtain sc where c: "chance 5 (t pos2) = Inr sc"
    and s': "s' = s\<lparr>s_player := p1, s_enemy := e1,
                 s_player_power := regen_power power1 (s_ship_stats s),
                 s_player_ammo := (if sc then ammo1 + 1 else ammo1),
                 s_turn := s_turn s + 1, s_pos := pos2 + 1,
                 s_printed := s_printed s @ [lg @ e_log @ (if sc then [Scavenged] else [])]\<rparr>"
    unfolding yy and_then_Inr prod.case by blast
  from y yy c s' show ?thesis by blast
qed

lemma turn_body_regen:
  assumes "turn_body t a s = Inr s'"
    and "handle_player_action t (s_pos s) (s_player s) (s_enemy s)
           (s_player_power s) (s_player_ammo s) a = Inr (lg, power1, ammo1, e1, pos1)"
  shows "s_player_power s'
           = min (power1 + max 3 ((case sd_speed (s_ship_stats s) of None \<Rightarrow> 5 | Some v \<Rightarrow> v) div 2))
                 (sd_power_grid (s_ship_stats s))
       \<and> (\<exists>pos2 sc. chance 5 (t pos2) = Inr sc
                    \<and> s_player_ammo s' = (if sc then ammo1 + 1 else ammo1))
       \<and> s_enemy s' = e1 \<and> s_turn s' = s_turn s + 1"
proof -
  from turn_body_steps [OF assms] obtain e_log p1 pos2 sc where
    c: "chance 5 (t pos2) = Inr sc"
    and s': "s' = s\<lparr>s_player := p1, s_enemy := e1,
                 s_player_power := regen_power power1 (s_ship_stats s),
                 s_player_ammo := (if sc then ammo1 + 1 else ammo1),
                 s_turn := s_turn s + 1, s_pos := pos2 + 1,
                 s_printed := s_printed s @ [lg @ e_log @ (if sc then [Scavenged] else [])]\<rparr>"
    by blast
  have "s_player_ammo s' = (if sc then ammo1 + 1 else ammo1)" by (simp add: s')
  with c have "\<exists>pos2 sc. chance 5 (t pos2) = Inr sc
                    \<and> s_player_ammo s' = (if sc then ammo1 + 1 else ammo1)" by blast
  moreover have "s_player_power s'
           = min (power1 + max 3 ((case sd_speed (s_ship_stats s) of None \<Rightarrow> 5 | Some v \<Rightarrow> v) div 2))
                 (sd_power_grid (s_ship_stats s))"
    by (simp add: s' regen_power_def)
  moreover have "s_enemy s' = e1 \<and> s_turn s' = s_turn s + 1" by (simp add: s')
  ultimately show ?thesis by blast
qed

lemma skirmish_attack:
  "handle_player_action (tape_of [9, 0, 9, 0, 0]) (s_pos skirmish) (s_player skirmish)
       (s_enemy skirmish) (s_player_power skirmish) (s_player_ammo skirmish) ''1''
     = Inr ([CombatLogHeader, HullDamage ''Pulse Laser'' 10 ''energy'' 10,
             HullDamage ''Mass Driver'' 8 ''kinetic'' 10,
             EnemyStatus ''Sholen Raider'' 0 98 0, RollsHeader,
             RollLine ''Pulse Laser'' 10, RollLine ''Mass Driver'' 10],
            85, 48, (s_enemy skirmish)\<lparr>e_hull := - 13\<rparr>, 4)"
  by code_simp

lemma skirmish_turn:
  "turn_body (tape_of [9, 0, 9, 0, 0]) ''1'' skirmish
     = Inr (skirmish\<lparr>s_enemy := (s_enemy skirmish)\<lparr>e_hull := - 13\<rparr>,
              s_player_power := 88, s_player_ammo := 49, s_turn := 2, s_pos := 5,
              s_printed := [[CombatLogHeader, HullDamage ''Pulse Laser'' 10 ''energy'' 10,
                 HullDamage ''Mass Driver'' 8 ''kinetic'' 10,
                 EnemyStatus ''Sholen Raider'' 0 98 0, RollsHeader,
                 RollLine ''Pulse Laser'' 10, RollLine ''Mass Driver'' 10, Scavenged]]\<rparr>)"
  by code_simp

text \<open>
  Claim C7, as stated, fails in the turn in which the enemy is destroyed. A pilot with a
  Pulse Laser and a Mass Driver fires on a raider with 5 hull: the volley leaves power 85
  and ammo 48 and the raider's hull at \<open>- 13\<close>, and the same turn still ends with the
  regeneration, power 88 and (the 5% draw succeeding) ammo 49.
\<close>

theorem regeneration_after_the_kill:
  "map_sum id (fst \<circ> snd)
     (handle_player_action (tape_of [9, 0, 9, 0, 0]) (s_pos skirmish) (s_player skirmish)
        (s_enemy skirmish) (s_player_power skirmish) (s_player_ammo skirmish) ''1'') = Inr 85
   \<and> map_sum id (fst \<circ> snd \<circ> snd)
     (handle_player_action (tape_of [9, 0, 9, 0, 0]) (s_pos skirmish) (s_player skirmish)
        (s_enemy skirmish) (s_player_power skirmish) (s_player_ammo skirmish) ''1'') = Inr 48
   \<and> map_sum id (e_hull \<circ> s_enemy) (turn_body (tape_of [9, 0, 9, 0, 0]) ''1'' skirmish) = Inr (- 13)
   \<and> map_sum id s_player_power (turn_body (tape_of [9, 0, 9, 0, 0]) ''1'' skirmish) = Inr 88
   \<and> map_sum id s_player_ammo (turn_body (tape_of [9, 0, 9, 0, 0]) ''1'' skirmish) = Inr 49"
  by (simp add: skirmish_attack skirmish_turn)

text \<open>
  Claim C7, amended. The end-of-turn regeneration runs at the end of every turn that the
  loop executes, whatever the turn's outcome, so also in the turn in which a hull reached
  0: the power becomes \<open>min (power + max 3 (speed div 2)) cap\<close> of the power the action
  left, and the ammo the action left gains 1 exactly when the 5% draw succeeds.
\<close>

theorem regeneration_every_turn:
  "turn_body t a s = Inr s'
   \<and> handle_player_action t (s_pos s) (s_player s) (s_enemy s)
         (s_player_power s) (s_player_ammo s) a = Inr (lg, pw, am, en, ps)
   \<longrightarrow> s_player_power s'
           = min (pw + max 3 ((case sd_speed (s_ship_stats s) of None \<Rightarrow> 5 | Some v \<Rightarrow> v) div 2))
                 (sd_power_grid (s_ship_stats s))
       \<and> (\<exists>pz sc. chance 5 (t pz) = Inr sc
                    \<and> s_player_ammo s' = (if sc then am + 1 else am))
       \<and> s_enemy s' = en \<and> s_turn s' = s_turn s + 1"
  by (intro impI, elim conjE) (rule turn_body_regen; assumption)

theorem regeneration_every_turn_witness:
  "turn_body (tape_of [9, 0, 9, 0, 0]) ''1'' skirmish
     = Inr (skirmish\<lparr>s_enemy := (s_enemy skirmish)\<lparr>e_hull := - 13\<rparr>,
              s_player_power := 88, s_player_ammo := 49, s_turn := 2, s_pos := 5,
              s_printed := [[CombatLogHeader, HullDamage ''Pulse Laser'' 10 ''energy'' 10,
                 HullDamage ''Mass Driver'' 8 ''kinetic'' 10,
                 EnemyStatus ''Sholen Raider'' 0 98 0, RollsHeader,
                 RollLine ''Pulse Laser'' 10, RollLine ''Mass Driver'' 10, Scavenged]]\<rparr>)
   \<and> e_hull ((s_enemy skirmish)\<lparr>e_hull := - 13\<rparr>) \<le> 0
   \<and> min (85 + max 3 ((case sd_speed (s_ship_stats skirmish) of None \<Rightarrow> 5 | Some v \<Rightarrow> v) div 2))
         (sd_power_grid (s_ship_stats skirmish)) = 88
   \<and> s_turn skirmish + 1 = 2"
  using regeneration_every_turn [where t = "tape_of [9, 0, 9, 0, 0]" and a = "''1''"
      and s = skirmish and lg = "[CombatLogHeader, HullDamage ''Pulse Laser'' 10 ''energy'' 10,
             HullDamage ''Mass Driver'' 8 ''kinetic'' 10,
             EnemyStatus ''Sholen Raider'' 0 98 0, RollsHeader,
             RollLine ''Pulse Laser'' 10, RollLine ''Mass Driver'' 10]"
      and pw = 85 and am = 48 and en = "(s_enemy skirmish)\<lparr>e_hull := - 13\<rparr>" and ps = 4
      and s' = "skirmish\<lparr>s_enemy := (s_enemy skirmish)\<lparr>e_hull := - 13\<rparr>,
              s_player_power := 88, s_player_ammo := 49, s_turn := 2, s_pos := 5,
              s_printed := [[CombatLogHeader, HullDamage ''Pulse Laser'' 10 ''energy'' 10,
                 HullDamage ''Mass Driver'' 8 ''kinetic'' 10,
                 EnemyStatus ''Sholen Raider'' 0 98 0, RollsHeader,
                 RollLine ''Pulse Laser'' 10, RollLine ''Mass Driver'' 10, Scavenged]]\<rparr>"]
    skirmish_attack skirmish_turn
  by simp

subsection \<open>What is saved when the combat ends\<close>

lemma absorb_player_frame:
  "p_ammo (snd (absorb_player n d p)) = p_ammo p
   \<and> p_credits (snd (absorb_player n d p)) = p_credits p
   \<and> p_ship_data (snd (absorb_player n d p)) = p_ship_data p"
  by (auto simp: absorb_player_def Let_def)

lemma enemy_attack_frame:
  assumes "enemy_attack t pos p e = Inr (lg, p', pos')"
  shows "p_ammo p' = p_ammo p \<and> p_credits p' = p_credits p \<and> p_ship_data p' = p_ship_data p"
  using enemy_attack_cases [OF assms] absorb_player_frame by auto

lemma turn_body_frame:
  assumes "turn_body t a s = Inr s'"
  shows "p_ammo (s_player s') = p_ammo (s_player s)
       \<and> p_credits (s_player s') = p_credits (s_player s)
       \<and> p_ship_data (s_player s') = p_ship_data (s_player s)"
proof -
  from assms obtain x where
    h: "handle_player_action t (s_pos s) (s_player s) (s_enemy s)
          (s_player_power s) (s_player_ammo s) a = Inr x"
    unfolding turn_body_def and_then_Inr by blast
  obtain lg pw am en ps where x: "x = (lg, pw, am, en, ps)" by (cases x)
  from turn_body_steps [OF assms h [unfolded x]] obtain e_log p1 pz sc where
    att: "(if e_hull en > 0 then enemy_attack t ps (s_player s) en
            else Inr ([], s_player s, ps)) = Inr (e_log, p1, pz)"
    and s': "s' = s\<lparr>s_player := p1, s_enemy := en,
                 s_player_power := regen_power pw (s_ship_stats s),
                 s_player_ammo := (if sc then am + 1 else am),
                 s_turn := s_turn s + 1, s_pos := pz + 1,
                 s_printed := s_printed s @ [lg @ e_log @ (if sc then [Scavenged] else [])]\<rparr>"
    by blast
  have p1: "s_player s' = p1" by (simp add: s')
  show ?thesis
  proof (cases "e_hull en > 0")
    case True
    with att have "enemy_attack t ps (s_player s) en = Inr (e_log, p1, pz)" by simp
    from enemy_attack_frame [OF this] p1 show ?thesis by simp
  next
    case False
    with att have "p1 = s_player s" by simp
    with p1 show ?thesis by simp
  qed
qed

lemma combat_loop_frame:
  "combat_loop t actions s = Inr s' \<Longrightarrow>
   p_ammo (s_player s') = p_ammo (s_player s)
   \<and> p_credits (s_player s') = p_credits (s_player s)
   \<and> p_ship_data (s_player s') = p_ship_data (s_player s)"
proof (induction actions arbitrary: s)
  case Nil
  then show ?case by (simp split: if_splits)
next
  case (Cons a actions)
  show ?case
  proof (cases "e_hull (s_enemy s) > 0 \<and> p_hull (s_player s) > 0")
    case False
    with Cons.prems show ?thesis by auto
  next
    case True
    with Cons.prems obtain s1 where
      t1: "turn_body t a s = Inr s1" and r: "combat_loop t actions s1 = Inr s'"
      by (auto simp: and_then_Inr)
    from Cons.IH [OF r] turn_body_frame [OF t1] show ?thesis by simp
  qed
qed

lemma start_session_frame:
  "p_ammo (s_player (start_session pos p tmpl)) = p_ammo p
   \<and> p_credits (s_player (start_session pos p tmpl)) = p_credits p
   \<and> p_ship_data (s_player (start_session pos p tmpl)) = p_ship_data p"
  using ship_bonuses_frame [of "p_ship_modules p" "(p, p_ship_data p)"]
  by (simp add: start_session_def get_player_ship_def Let_def split_beta)

lemma combat_resolution_saved:
  assumes "combat_resolution t s = Inr out"
  shows "o_saved out = o_player out
       \<and> o_result out = (0 < p_hull (s_player s))
       \<and> p_hull (o_saved out) = p_hull (s_player s)
       \<and> p_shields (o_saved out) = p_shields (s_player s)
       \<and> p_ammo (o_saved out) = p_ammo (s_player s)
       \<and> p_ship_data (o_saved out) = p_ship_data (s_player s)
       \<and> (if o_result out
          then randint 150 400 (t (s_pos s)) = Inr (p_credits (o_saved out) - p_credits (s_player s))
          else p_credits (o_saved out) = p_credits (s_player s))"
  using assms
  by (auto simp: combat_resolution_def and_then_Inr Let_def split: if_splits)

lemma engage_pirates_saved:
  assumes "engage_pirates t actions p tmpl = Inr out"
  shows "\<exists>s. combat_loop t actions (start_session 0 p tmpl) = Inr s
          \<and> o_saved out = o_player out
          \<and> o_result out = (0 < p_hull (s_player s))
          \<and> p_hull (o_saved out) = p_hull (s_player s)
          \<and> p_shields (o_saved out) = p_shields (s_player s)
          \<and> (if o_result out
              then randint 150 400 (t (s_pos s)) = Inr (p_credits (o_saved out) - p_credits p)
              else p_credits (o_saved out) = p_credits p)
          \<and> p_ammo (o_saved out) = p_ammo p
          \<and> p_ship_data (o_saved out) = p_ship_data p"
proof -
  from assms obtain s where
    l: "combat_loop t actions (start_session 0 p tmpl) = Inr s"
    and r: "combat_resolution t s = Inr out"
    unfolding engage_pirates_def and_then_Inr by blast
  from combat_loop_frame [OF l] start_session_frame [of 0 p tmpl]
  have f: "p_ammo (s_player s) = p_ammo p \<and> p_credits (s_player s) = p_credits p
           \<and> p_ship_data (s_player s) = p_ship_data p" by simp
  from combat_resolution_saved [OF r] f l show ?thesis by auto
qed

lemma skirmish_loop:
  "combat_loop (tape_of [9, 0, 9, 0, 50, 0]) [''1''] (start_session 0 gunner (Some weak_template))
     = Inr (skirmish\<lparr>s_enemy := (s_enemy skirmish)\<lparr>e_hull := - 13\<rparr>,
              s_player_power := 88, s_player_ammo := 48, s_turn := 2, s_pos := 5,
              s_printed := [[CombatLogHeader, HullDamage ''Pulse Laser'' 10 ''energy'' 10,
                 HullDamage ''Mass Driver'' 8 ''kinetic'' 10,
                 EnemyStatus ''Sholen Raider'' 0 98 0, RollsHeader,
                 RollLine ''Pulse Laser'' 10, RollLine ''Mass Driver'' 10]]\<rparr>)"
  by code_simp

lemma skirmish_outcome:
  "engage_pirates (tape_of [9, 0, 9, 0, 50, 0]) [''1''] gunner (Some weak_template)
     = Inr \<lparr>o_result = True, o_player = gunner\<lparr>p_credits := 1150\<rparr>,
            o_saved = gunner\<lparr>p_credits := 1150\<rparr>\<rparr>"
  by code_simp

text \<open>
  Claim C2, as stated, fails for ammo and power. The pilot with the Mass Driver destroys
  the weak raider in one turn; the session ends with ammo 48 and power 88, and the record
  that \<^verbatim>\<open>save_player\<close> writes has ammo 50 and a ship power grid of 100, as before
  the fight.
\<close>

theorem spent_ammo_is_not_saved:
  "map_sum id s_player_ammo
     (combat_loop (tape_of [9, 0, 9, 0, 50, 0]) [''1''] (start_session 0 gunner (Some weak_template)))
     = Inr 48
   \<and> map_sum id s_player_power
     (combat_loop (tape_of [9, 0, 9, 0, 50, 0]) [''1''] (start_session 0 gunner (Some weak_template)))
     = Inr 88
   \<and> map_sum id (p_ammo \<circ> o_saved)
     (engage_pirates (tape_of [9, 0, 9, 0, 50, 0]) [''1''] gunner (Some weak_template)) = Inr 50
   \<and> map_sum id (sd_power_grid \<circ> p_ship_data \<circ> o_saved)
     (engage_pirates (tape_of [9, 0, 9, 0, 50, 0]) [''1''] gunner (Some weak_template)) = Inr 100"
  unfolding skirmish_loop skirmish_outcome
  by (simp add: gunner_def new_player_def)

text \<open>
  Claim C2, amended. When \<^verbatim>\<open>engage_pirates\<close> returns (victory or defeat), the record it
  saves is the player dictionary the caller holds, with the hull and shields the combat
  ended with, and with the credits of before plus, on victory, the reward drawn from
  \<open>[150, 400]\<close>. The power and ammo of the session are locals that are not written back:
  the saved \<^verbatim>\<open>ammo\<close> and \<^verbatim>\<open>ship_data\<close> (with its power grid) are those of the
  player before the combat.
\<close>

theorem saved_player_record:
  "engage_pirates t actions p tmpl = Inr out \<longrightarrow>
     (\<exists>s. combat_loop t actions (start_session 0 p tmpl) = Inr s
          \<and> o_saved out = o_player out
          \<and> o_result out = (0 < p_hull (s_player s))
          \<and> p_hull (o_saved out) = p_hull (s_player s)
          \<and> p_shields (o_saved out) = p_shields (s_player s)
          \<and> (if o_result out
              then randint 150 400 (t (s_pos s)) = Inr (p_credits (o_saved out) - p_credits p)
              else p_credits (o_saved out) = p_credits p)
          \<and> p_ammo (o_saved out) = p_ammo p
          \<and> p_ship_data (o_saved out) = p_ship_data p)"
  by (intro impI) (rule engage_pirates_saved)

theorem saved_player_record_witness:
  "engage_pirates (tape_of [9, 0, 9, 0, 50, 0]) [''1''] gunner (Some weak_template)
     = Inr \<lparr>o_result = True, o_player = gunner\<lparr>p_credits := 1150\<rparr>,
            o_saved = gunner\<lparr>p_credits := 1150\<rparr>\<rparr>
   \<and> p_ammo (gunner\<lparr>p_credits := 1150\<rparr>) = p_ammo gunner
   \<and> p_ship_data (gunner\<lparr>p_credits := 1150\<rparr>) = p_ship_data gunner
   \<and> randint 150 400 (tape_of [9, 0, 9, 0, 50, 0] 5) = Inr (1150 - p_credits gunner)"
  using saved_player_record [where t = "tape_of [9, 0, 9, 0, 50, 0]" and actions = "[''1'']"
      and p = gunner and tmpl = "Some weak_template"
      and out = "\<lparr>o_result = True, o_player = gunner\<lparr>p_credits := 1150\<rparr>,
            o_saved = gunner\<lparr>p_credits := 1150\<rparr>\<rparr>"]
    skirmish_outcome skirmish_loop
  by simp

subsection \<open>The power step is not monotone\<close>

lemma turn_body_power_step:
  assumes "turn_body t a s = Inr s'"
    and "handle_player_action t (s_pos s) (s_player s) (s_enemy s)
           (s_player_power s) (s_player_ammo s) a = Inr (lg, pw, am, en, ps)"
  shows "s_player_power s'
           = min (pw + max 3 ((case sd_speed (s_ship_stats s) of None \<Rightarrow> 5 | Some v \<Rightarrow> v) div 2))
                 (sd_power_grid (s_ship_stats s))
       \<and> (if sd_power_grid (s_ship_stats s) < pw
          then s_player_power s' = sd_power_grid (s_ship_stats s) \<and> s_player_power s' < pw
          else pw \<le> s_player_power s')"
proof -
  from turn_body_regen [OF assms]
  have f: "s_player_power s'
           = min (pw + max 3 ((case sd_speed (s_ship_stats s) of None \<Rightarrow> 5 | Some v \<Rightarrow> v) div 2))
                 (sd_power_grid (s_ship_stats s))"
    by blast
  have "0 < max 3 ((case sd_speed (s_ship_stats s) of None \<Rightarrow> 5 | Some v \<Rightarrow> v) div 2)"
    by simp
  with f show ?thesis by auto
qed

lemma emergency_power_action:
  assumes "roll_dice 20 (t pos) = Inr roll" and "14 \<le> roll"
    and "randint 12 30 (t (pos + 1)) = Inr boost"
  shows "handle_player_action t pos p e g am ''2''
           = Inr ([EmergencySuccess roll boost], min 140 (g + boost), am, e, pos + 2)"
  using assms by (simp add: handle_player_action_def emergency_power_def)

lemma boosted_action:
  "roll_dice 20 (boost_tape (s_pos first_turn)) = Inr 14
   \<and> randint 12 30 (boost_tape (s_pos first_turn + 1)) = Inr 12
   \<and> handle_player_action boost_tape (s_pos first_turn) (s_player first_turn) (s_enemy first_turn)
       (s_player_power first_turn) (s_player_ammo first_turn) ''2''
     = Inr ([EmergencySuccess 14 12], 112, 50, s_enemy first_turn, 2)
   \<and> s_player_power first_turn = 100
   \<and> sd_power_grid (s_ship_stats first_turn) = 100
   \<and> sd_speed (s_ship_stats first_turn) = None"
  by code_simp

lemma boosted_turn:
  "turn_body boost_tape ''2'' first_turn
     = Inr (first_turn\<lparr>s_player_power := 100, s_turn := 2, s_pos := 4,
              s_printed := [[EmergencySuccess 14 12, EnemyMissed ''Sholen Raider'' 1]]\<rparr>)"
  by code_simp

text \<open>
  Claim C9. The end-of-turn step of the loop sets the power to
  \<open>min (power + max 3 (speed div 2)) cap\<close>, where \<open>power\<close> is what the action left and
  \<open>cap\<close> is the power grid of the ship; a successful Emergency Power (roll at least 14)
  leaves \<open>min 140 (power + boost)\<close>, capped at the constant 140 and not at the ship's
  cap. So the step is not monotone: when the power exceeds the ship's cap it ends the
  turn strictly lower, at that cap, and otherwise it does not decrease.
\<close>

theorem power_step_not_monotone:
  "(turn_body t a s = Inr s'
    \<and> handle_player_action t (s_pos s) (s_player s) (s_enemy s)
          (s_player_power s) (s_player_ammo s) a = Inr (lg, pw, am, en, ps)
    \<longrightarrow> s_player_power s'
           = min (pw + max 3 ((case sd_speed (s_ship_stats s) of None \<Rightarrow> 5 | Some v \<Rightarrow> v) div 2))
                 (sd_power_grid (s_ship_stats s))
       \<and> (if sd_power_grid (s_ship_stats s) < pw
          then s_player_power s' = sd_power_grid (s_ship_stats s) \<and> s_player_power s' < pw
          else pw \<le> s_player_power s'))
   \<and> (roll_dice 20 (te pe) = Inr roll \<and> 14 \<le> roll \<and> randint 12 30 (te (pe + 1)) = Inr boost
      \<longrightarrow> emergency_power te pe g = Inr (EmergencySuccess roll boost, min 140 (g + boost), pe + 2)
        \<and> handle_player_action te pe p e g amm ''2''
            = Inr ([EmergencySuccess roll boost], min 140 (g + boost), amm, e, pe + 2))
   \<and> regen_power pq ship
        = min (pq + max 3 ((case sd_speed ship of None \<Rightarrow> 5 | Some v \<Rightarrow> v) div 2)) (sd_power_grid ship)
   \<and> (sd_power_grid ship < pq
      \<longrightarrow> regen_power pq ship = sd_power_grid ship \<and> regen_power pq ship < pq)"
proof -
  have c1: "turn_body t a s = Inr s'
    \<and> handle_player_action t (s_pos s) (s_player s) (s_enemy s)
          (s_player_power s) (s_player_ammo s) a = Inr (lg, pw, am, en, ps)
    \<longrightarrow> s_player_power s'
           = min (pw + max 3 ((case sd_speed (s_ship_stats s) of None \<Rightarrow> 5 | Some v \<Rightarrow> v) div 2))
                 (sd_power_grid (s_ship_stats s))
       \<and> (if sd_power_grid (s_ship_stats s) < pw
          then s_player_power s' = sd_power_grid (s_ship_stats s) \<and> s_player_power s' < pw
          else pw \<le> s_player_power s')"
    by (intro impI, elim conjE) (rule turn_body_power_step; assumption)
  have c2: "roll_dice 20 (te pe) = Inr roll \<and> 14 \<le> roll \<and> randint 12 30 (te (pe + 1)) = Inr boost
      \<longrightarrow> emergency_power te pe g = Inr (EmergencySuccess roll boost, min 140 (g + boost), pe + 2)
        \<and> handle_player_action te pe p e g amm ''2''
            = Inr ([EmergencySuccess roll boost], min 140 (g + boost), amm, e, pe + 2)"
  proof (intro impI, elim conjE)
    assume r: "roll_dice 20 (te pe) = Inr roll" and h: "14 \<le> roll"
      and b: "randint 12 30 (te (pe + 1)) = Inr boost"
    from emergency_power_success [OF r h b] emergency_power_action [OF r h b]
    show "emergency_power te pe g = Inr (EmergencySuccess roll boost, min 140 (g + boost), pe + 2)
        \<and> handle_player_action te pe p e g amm ''2''
            = Inr ([EmergencySuccess roll boost], min 140 (g + boost), amm, e, pe + 2)"
      by blast
  qed
  have c3: "regen_power pq ship
        = min (pq + max 3 ((case sd_speed ship of None \<Rightarrow> 5 | Some v \<Rightarrow> v) div 2)) (sd_power_grid ship)"
    by (simp add: regen_power_def)
  have c4: "sd_power_grid ship < pq
      \<longrightarrow> regen_power pq ship = sd_power_grid ship \<and> regen_power pq ship < pq"
    by (auto simp: regen_power_def split: option.splits)
  show ?thesis
    by (rule conjI [OF c1 conjI [OF c2 conjI [OF c3 c4]]])
qed

theorem power_step_not_monotone_witness:
  "roll_dice 20 (boost_tape (s_pos first_turn)) = Inr 14
   \<and> randint 12 30 (boost_tape (s_pos first_turn + 1)) = Inr 12
   \<and> handle_player_action boost_tape (s_pos first_turn) (s_player first_turn) (s_enemy first_turn)
       (s_player_power first_turn) (s_player_ammo first_turn) ''2''
     = Inr ([EmergencySuccess 14 12], min 140 (s_player_power first_turn + 12),
            s_player_ammo first_turn, s_enemy first_turn, s_pos first_turn + 2)
   \<and> min 140 (s_player_power first_turn + 12) = 112
   \<and> sd_power_grid (s_ship_stats first_turn) = 100
   \<and> turn_body boost_tape ''2'' first_turn
     = Inr (first_turn\<lparr>s_player_power := 100, s_turn := 2, s_pos := 4,
              s_printed := [[EmergencySuccess 14 12, EnemyMissed ''Sholen Raider'' 1]]\<rparr>)
   \<and> s_player_power (first_turn\<lparr>s_player_power := 100, s_turn := 2, s_pos := 4,
              s_printed := [[EmergencySuccess 14 12, EnemyMissed ''Sholen Raider'' 1]]\<rparr>)
       < min 140 (s_player_power first_turn + 12)
   \<and> regen_power 112 (s_ship_stats first_turn) = 100"
proof -
  note T = power_step_not_monotone [where t = boost_tape and a = "''2''" and s = first_turn
      and s' = "first_turn\<lparr>s_player_power := 100, s_turn := 2, s_pos := 4,
              s_printed := [[EmergencySuccess 14 12, EnemyMissed ''Sholen Raider'' 1]]\<rparr>"
      and lg = "[EmergencySuccess 14 12]" and pw = 112 and am = 50 and en = "s_enemy first_turn"
      and ps = 2 and te = boost_tape and pe = "s_pos first_turn" and roll = 14 and boost = 12
      and g = "s_player_power first_turn" and p = "s_player first_turn"
      and e = "s_enemy first_turn" and amm = "s_player_ammo first_turn"
      and pq = 112 and ship = "s_ship_stats first_turn"]
  have act: "handle_player_action boost_tape (s_pos first_turn) (s_player first_turn)
       (s_enemy first_turn) (s_player_power first_turn) (s_player_ammo first_turn) ''2''
     = Inr ([EmergencySuccess 14 12], min 140 (s_player_power first_turn + 12),
            s_player_ammo first_turn, s_enemy first_turn, s_pos first_turn + 2)"
    using T boosted_action by simp
  have cap: "regen_power 112 (s_ship_stats first_turn) = 100"
    using T boosted_action by simp
  have less: "s_player_power (first_turn\<lparr>s_player_power := 100, s_turn := 2, s_pos := 4,
              s_printed := [[EmergencySuccess 14 12, EnemyMissed ''Sholen Raider'' 1]]\<rparr>)
       < min 140 (s_player_power first_turn + 12)"
    using T boosted_action boosted_turn by simp
  from act cap less boosted_action boosted_turn show ?thesis by simp
qed

subsection \<open>A successful retreat\<close>

lemma retreat_action:
  "handle_player_action retreat_tape (s_pos first_turn) (s_player first_turn) (s_enemy first_turn)
       (s_player_power first_turn) (s_player_ammo first_turn) ''4''
     = Inr ([AttemptingRetreat, RetreatSuccessful, RETREATED], 100, 50, s_enemy first_turn, 1)"
  by code_simp

lemma retreat_turn:
  "turn_body retreat_tape ''4'' first_turn
     = Inr (first_turn\<lparr>s_player := (s_player first_turn)\<lparr>p_shields := 92\<rparr>,
              s_turn := 2, s_pos := 4,
              s_printed := [[AttemptingRetreat, RetreatSuccessful, RETREATED,
                             EnemyShieldDamage ''Sholen Raider'' 8]]\<rparr>)"
  by code_simp

lemma retreat_then_nothing:
  "combat_loop retreat_tape [''4''] first_turn = Inl EOFError"
  by code_simp

lemma retreat_then_fight:
  "map_sum id s_turn
     (combat_loop retreat_tape [''4'', ''1'', ''1'', ''1'', ''1'', ''1''] first_turn) = Inr 7
   \<and> map_sum id (e_hull \<circ> s_enemy)
     (combat_loop retreat_tape [''4'', ''1'', ''1'', ''1'', ''1'', ''1''] first_turn) = Inr (- 15)"
  by code_simp

lemma retreat_then_reward:
  "engage_pirates retreat_tape [''4'', ''1'', ''1'', ''1'', ''1'', ''1''] (new_player ''pilot'') None
     = Inr \<lparr>o_result = True,
            o_player = (new_player ''pilot'')\<lparr>p_credits := 1150, p_shields := 92\<rparr>,
            o_saved = (new_player ''pilot'')\<lparr>p_credits := 1150, p_shields := 92\<rparr>\<rparr>"
  by code_simp

text \<open>
  Claim C1 does not hold of the code. On a successful retreat \<^verbatim>\<open>handle_player_action\<close>
  only appends the marker \<^verbatim>\<open>"[RETREATED]"\<close> to the log, and \<^verbatim>\<open>engage_pirates\<close> never
  looks for it. A new pilot against the raider of \<^verbatim>\<open>PIRATE_TEMPLATE\<close> retreats
  successfully in turn 1: in that same turn the enemy attacks (shields 100 to 92), the
  loop then asks for the next action (with no further input it ends in \<open>EOFError\<close>), and
  with five attacks after the retreat the session runs to turn 7 and returns a victory
  with a reward of 150 credits.
\<close>

theorem successful_retreat_does_not_end_combat:
  "map_sum id fst
     (handle_player_action retreat_tape (s_pos first_turn) (s_player first_turn)
        (s_enemy first_turn) (s_player_power first_turn) (s_player_ammo first_turn) ''4'')
     = Inr [AttemptingRetreat, RetreatSuccessful, RETREATED]
   \<and> map_sum id s_printed (turn_body retreat_tape ''4'' first_turn)
     = Inr [[AttemptingRetreat, RetreatSuccessful, RETREATED,
             EnemyShieldDamage ''Sholen Raider'' 8]]
   \<and> map_sum id (p_shields \<circ> s_player) (turn_body retreat_tape ''4'' first_turn) = Inr 92
   \<and> p_shields (s_player first_turn) = 100
   \<and> combat_loop retreat_tape [''4''] first_turn = Inl EOFError
   \<and> map_sum id s_turn
       (combat_loop retreat_tape [''4'', ''1'', ''1'', ''1'', ''1'', ''1''] first_turn) = Inr 7
   \<and> map_sum id o_result
       (engage_pirates retreat_tape [''4'', ''1'', ''1'', ''1'', ''1'', ''1'']
          (new_player ''pilot'') None) = Inr True
   \<and> map_sum id (p_credits \<circ> o_saved)
       (engage_pirates retreat_tape [''4'', ''1'', ''1'', ''1'', ''1'', ''1'']
          (new_player ''pilot'') None) = Inr 1150
   \<and> p_credits (new_player ''pilot'') = 1000"
  unfolding retreat_action retreat_turn retreat_then_nothing retreat_then_reward
  using retreat_then_fight
  by (simp add: first_turn_def start_session_def get_player_ship_def new_player_def
        get_module_def MODULES_def weapon_def mining_def Let_def)

end
